theory Spec2Isabelle
  imports Main
begin

section \<open>The header \<open>cimgui_impl_metal.h\<close> as data\<close>

text \<open>
  The repository's source is one C header,
  \<open>src/engine/vendor/imgui/backends/cimgui_impl_metal.h\<close>. It declares five
  typedefs and six function prototypes between an \<open>extern "C"\<close> brace pair that is
  guarded by \<open>#ifdef __cplusplus\<close>. The header has no function bodies, so what it
  determines is its list of declarations: that list is embedded here line by line, and
  the functions below compute from it what a C or C++ compiler reads off it (the
  lines left after preprocessing, the language linkage of every declaration, the
  type each typedef name stands for, and whether a call type-checks).
\<close>

subsection \<open>C types and declarations\<close>

datatype ctype =
    Void
  | Bool
  | Pointer ctype
  | Named string

text \<open>
  A prototype's parameter list is either the keyword list \<open>(void)\<close>, which declares a
  function of no parameters, or a list of typed, named parameters.
\<close>

datatype param_list =
    VoidParams
  | Params "(ctype \<times> string) list"

datatype decl =
    Typedef ctype string
  | Prototype ctype string param_list

datatype line =
    PragmaOnce
  | IfdefCplusplus
  | Endif
  | ExternC_Open
  | Brace_Close
  | Include string
  | Declaration decl

definition cimgui_impl_metal_h :: "line list" where
  "cimgui_impl_metal_h =
    [ PragmaOnce,
      IfdefCplusplus,
      ExternC_Open,
      Endif,
      Include ''stdbool.h'',
      Declaration (Typedef (Pointer Void) ''cImGui_MTLDevice''),
      Declaration (Typedef (Pointer Void) ''cImGui_MTLCommandBuffer''),
      Declaration (Typedef (Pointer Void) ''cImGui_MTLRenderCommandEncoder''),
      Declaration (Typedef (Pointer Void) ''cImGui_MTLRenderPassDescriptor''),
      Declaration (Typedef (Pointer Void) ''cImGui_ImDrawData''),
      Declaration (Prototype Bool ''cImGui_ImplMetal_Init''
        (Params [(Named ''cImGui_MTLDevice'', ''device'')])),
      Declaration (Prototype Void ''cImGui_ImplMetal_Shutdown'' VoidParams),
      Declaration (Prototype Void ''cImGui_ImplMetal_NewFrame''
        (Params [(Named ''cImGui_MTLRenderPassDescriptor'', ''renderPassDescriptor'')])),
      Declaration (Prototype Void ''cImGui_ImplMetal_RenderDrawData''
        (Params [(Named ''cImGui_ImDrawData'', ''drawData''),
                 (Named ''cImGui_MTLCommandBuffer'', ''commandBuffer''),
                 (Named ''cImGui_MTLRenderCommandEncoder'', ''commandEncoder'')])),
      Declaration (Prototype Bool ''cImGui_ImplMetal_CreateDeviceObjects''
        (Params [(Named ''cImGui_MTLDevice'', ''device'')])),
      Declaration (Prototype Void ''cImGui_ImplMetal_DestroyDeviceObjects'' VoidParams),
      IfdefCplusplus,
      Brace_Close,
      Endif ]"

subsection \<open>Preprocessing and language linkage\<close>

text \<open>
  The language the header is compiled as decides whether \<open>__cplusplus\<close> is defined.
  \<open>preprocess\<close> keeps the lines a compiler of that language sees: the lines between
  \<open>#ifdef __cplusplus\<close> and \<open>#endif\<close> are dropped when the macro is not defined.
  The flag \<open>skip\<close> is true inside a dropped region.
\<close>

datatype language = C | Cplusplus

fun preprocess :: "language \<Rightarrow> bool \<Rightarrow> line list \<Rightarrow> line list" where
  "preprocess lang skip [] = []"
| "preprocess lang skip (IfdefCplusplus # ls) = preprocess lang (lang \<noteq> Cplusplus) ls"
| "preprocess lang skip (Endif # ls) = preprocess lang False ls"
| "preprocess lang skip (l # ls) =
     (if skip then preprocess lang skip ls else l # preprocess lang skip ls)"

text \<open>
  A declaration has C language linkage when the language is C, or when it stands
  inside an \<open>extern "C" { ... }\<close> block of a C++ translation unit; \<open>depth\<close> counts
  the blocks that are open.
\<close>

datatype linkage = C_linkage | Cplusplus_linkage

fun declared :: "language \<Rightarrow> nat \<Rightarrow> line list \<Rightarrow> (decl \<times> linkage) list" where
  "declared lang depth [] = []"
| "declared lang depth (ExternC_Open # ls) = declared lang (Suc depth) ls"
| "declared lang depth (Brace_Close # ls) = declared lang (depth - 1) ls"
| "declared lang depth (Declaration d # ls) =
     (d, if lang = Cplusplus \<and> depth = 0 then Cplusplus_linkage else C_linkage)
       # declared lang depth ls"
| "declared lang depth (l # ls) = declared lang depth ls"

definition interface :: "language \<Rightarrow> (decl \<times> linkage) list" where
  "interface lang = declared lang 0 (preprocess lang False cimgui_impl_metal_h)"

definition declarations :: "decl list" where
  "declarations = map fst (interface C)"

subsection \<open>Reading the declarations\<close>

fun is_typedef :: "decl \<Rightarrow> bool" where
  "is_typedef (Typedef t n) = True"
| "is_typedef (Prototype r n ps) = False"

fun is_prototype :: "decl \<Rightarrow> bool" where
  "is_prototype (Typedef t n) = False"
| "is_prototype (Prototype r n ps) = True"

fun decl_name :: "decl \<Rightarrow> string" where
  "decl_name (Typedef t n) = n"
| "decl_name (Prototype r n ps) = n"

fun return_type :: "decl \<Rightarrow> ctype" where
  "return_type (Typedef t n) = t"
| "return_type (Prototype r n ps) = r"

fun parameters :: "decl \<Rightarrow> (ctype \<times> string) list" where
  "parameters (Typedef t n) = []"
| "parameters (Prototype r n VoidParams) = []"
| "parameters (Prototype r n (Params ps)) = ps"

definition parameter_types :: "decl \<Rightarrow> ctype list" where
  "parameter_types d = map fst (parameters d)"

definition typedefs :: "decl list" where
  "typedefs = filter is_typedef declarations"

definition prototypes :: "decl list" where
  "prototypes = filter is_prototype declarations"

text \<open>The signature list: each declaration without the names of its parameters.\<close>

fun signature :: "decl \<Rightarrow> string \<times> ctype \<times> ctype list" where
  "signature d = (decl_name d, return_type d, parameter_types d)"

subsection \<open>Typedef names and the type check of a call\<close>

text \<open>
  In C a typedef name is a synonym of the type it is declared with and not a new type.
  \<open>canonical\<close> replaces every typedef name of an environment by the type it stands
  for; \<open>typedef_env\<close> builds the environment in declaration order, each typedef
  being read in the environment of the typedefs before it.
\<close>

fun canonical :: "(string \<times> ctype) list \<Rightarrow> ctype \<Rightarrow> ctype" where
  "canonical env Void = Void"
| "canonical env Bool = Bool"
| "canonical env (Pointer t) = Pointer (canonical env t)"
| "canonical env (Named n) = (case map_of env n of Some t \<Rightarrow> t | None \<Rightarrow> Named n)"

fun typedef_env :: "(string \<times> ctype) list \<Rightarrow> decl list \<Rightarrow> (string \<times> ctype) list" where
  "typedef_env env [] = env"
| "typedef_env env (Typedef t n # ds) = typedef_env ((n, canonical env t) # env) ds"
| "typedef_env env (Prototype r n ps # ds) = typedef_env env ds"

definition header_env :: "(string \<times> ctype) list" where
  "header_env = typedef_env [] declarations"

definition compatible :: "ctype \<Rightarrow> ctype \<Rightarrow> bool" where
  "compatible a b = (canonical header_env a = canonical header_env b)"

text \<open>The five handle types, as a caller writes them: by their typedef names.\<close>

definition handle_types :: "ctype list" where
  "handle_types = map (\<lambda>d. Named (decl_name d)) typedefs"

text \<open>
  A call names a function and gives the declared types of its arguments. It is
  accepted when the name is that of a declared prototype, there are as many arguments
  as parameters, and each argument's type is compatible with its parameter's. The
  check asks for the same type once the typedef names are resolved. A compiler
  accepts more: it also converts any other object pointer to \<open>void*\<close>. So a call
  accepted here is accepted by a compiler, and not every call rejected here is.
\<close>

definition call_accepted :: "string \<Rightarrow> ctype list \<Rightarrow> bool" where
  "call_accepted f args =
     (case find (\<lambda>d. decl_name d = f) prototypes of
        None \<Rightarrow> False
      | Some d \<Rightarrow> list_all2 compatible (parameter_types d) args)"

section \<open>The bindings behind the declarations\<close>

text \<open>
  The header declares the six functions and defines none of them. Their bodies and
  the rendering library's Metal backend that they call lie outside the header; what
  follows is modelled from the specification's description of them, with the wrapped
  backend left as a parameter.
\<close>

subsection \<open>Handles and native references\<close>

text \<open>A handle is the value of a \<open>void*\<close>: an address, with nothing known of its target.\<close>

type_synonym handle = nat

text \<open>
  Modelled from the spec: the concrete native types the five handle types stand in
  for (section 3: a GPU device, a command buffer, a render command encoder, a
  render-pass descriptor and a draw-data snapshot). Their declarations belong to the
  graphics API and the GUI library and are missing from the sources.
\<close>

datatype native_type =
    MTLDevice
  | MTLCommandBuffer
  | MTLRenderCommandEncoder
  | MTLRenderPassDescriptor
  | ImDrawData

datatype native = Native native_type handle

fun address :: "native \<Rightarrow> handle" where
  "address (Native T h) = h"

text \<open>
  Modelled from the spec: the translation of an opaque pointer into the concrete
  native type (section 1), the cast in the missing function bodies. It gives the
  pointer the static type the callee expects and keeps its value.
\<close>

definition bridge :: "native_type \<Rightarrow> handle \<Rightarrow> native" where
  "bridge T h = Native T h"

subsection \<open>The wrapped backend\<close>

text \<open>
  Modelled from the spec: the underlying rendering library's backend (section 1: four
  lifecycle calls and two device-object management calls), missing from the sources.
  Its six entry points act on a state \<open>'w\<close> that stands for everything they can read
  or change: the backend's own state and the native objects. The spec leaves their
  effect to the library, so the record is a parameter of all that follows.
\<close>

record 'w backend =
  ImGui_ImplMetal_Init :: "native \<Rightarrow> 'w \<Rightarrow> bool \<times> 'w"
  ImGui_ImplMetal_Shutdown :: "'w \<Rightarrow> 'w"
  ImGui_ImplMetal_NewFrame :: "native \<Rightarrow> 'w \<Rightarrow> 'w"
  ImGui_ImplMetal_RenderDrawData :: "native \<Rightarrow> native \<Rightarrow> native \<Rightarrow> 'w \<Rightarrow> 'w"
  ImGui_ImplMetal_CreateDeviceObjects :: "native \<Rightarrow> 'w \<Rightarrow> bool \<times> 'w"
  ImGui_ImplMetal_DestroyDeviceObjects :: "'w \<Rightarrow> 'w"

subsection \<open>The six functions\<close>

text \<open>
  Modelled from the spec: the bodies of the six declared functions, missing from the
  sources. Each translates its handles and calls the backend's function of the same
  name (sections 1 and 2: the caller passes a handle, the shim casts, the underlying
  library call executes). The parameters are those of the header's prototypes, in
  their order; a function declared \<open>bool\<close> returns the backend's flag.
\<close>

definition cImGui_ImplMetal_Init :: "'w backend \<Rightarrow> handle \<Rightarrow> 'w \<Rightarrow> bool \<times> 'w" where
  "cImGui_ImplMetal_Init B device w = ImGui_ImplMetal_Init B (bridge MTLDevice device) w"

definition cImGui_ImplMetal_Shutdown :: "'w backend \<Rightarrow> 'w \<Rightarrow> 'w" where
  "cImGui_ImplMetal_Shutdown B w = ImGui_ImplMetal_Shutdown B w"

definition cImGui_ImplMetal_NewFrame :: "'w backend \<Rightarrow> handle \<Rightarrow> 'w \<Rightarrow> 'w" where
  "cImGui_ImplMetal_NewFrame B renderPassDescriptor w =
     ImGui_ImplMetal_NewFrame B (bridge MTLRenderPassDescriptor renderPassDescriptor) w"

definition cImGui_ImplMetal_RenderDrawData ::
  "'w backend \<Rightarrow> handle \<Rightarrow> handle \<Rightarrow> handle \<Rightarrow> 'w \<Rightarrow> 'w" where
  "cImGui_ImplMetal_RenderDrawData B drawData commandBuffer commandEncoder w =
     ImGui_ImplMetal_RenderDrawData B (bridge ImDrawData drawData)
       (bridge MTLCommandBuffer commandBuffer)
       (bridge MTLRenderCommandEncoder commandEncoder) w"

definition cImGui_ImplMetal_CreateDeviceObjects :: "'w backend \<Rightarrow> handle \<Rightarrow> 'w \<Rightarrow> bool \<times> 'w" where
  "cImGui_ImplMetal_CreateDeviceObjects B device w =
     ImGui_ImplMetal_CreateDeviceObjects B (bridge MTLDevice device) w"

definition cImGui_ImplMetal_DestroyDeviceObjects :: "'w backend \<Rightarrow> 'w \<Rightarrow> 'w" where
  "cImGui_ImplMetal_DestroyDeviceObjects B w = ImGui_ImplMetal_DestroyDeviceObjects B w"

subsection \<open>Calls and what a caller observes\<close>

text \<open>
  A call on the interface is one of the six functions with its handles; a call on the
  backend is one of its six entry points with native references. What a caller
  observes of a call is the flag it returns, if it returns one, and the state after it.
\<close>

datatype call =
    Init handle
  | Shutdown
  | NewFrame handle
  | RenderDrawData handle handle handle
  | CreateDeviceObjects handle
  | DestroyDeviceObjects

datatype backend_call =
    Backend_Init native
  | Backend_Shutdown
  | Backend_NewFrame native
  | Backend_RenderDrawData native native native
  | Backend_CreateDeviceObjects native
  | Backend_DestroyDeviceObjects

fun flagged :: "bool \<times> 'w \<Rightarrow> bool option \<times> 'w" where
  "flagged (ok, w) = (Some ok, w)"

fun shim :: "'w backend \<Rightarrow> call \<Rightarrow> 'w \<Rightarrow> bool option \<times> 'w" where
  "shim B (Init device) w = flagged (cImGui_ImplMetal_Init B device w)"
| "shim B Shutdown w = (None, cImGui_ImplMetal_Shutdown B w)"
| "shim B (NewFrame rpd) w = (None, cImGui_ImplMetal_NewFrame B rpd w)"
| "shim B (RenderDrawData dd cb ce) w = (None, cImGui_ImplMetal_RenderDrawData B dd cb ce w)"
| "shim B (CreateDeviceObjects device) w = flagged (cImGui_ImplMetal_CreateDeviceObjects B device w)"
| "shim B DestroyDeviceObjects w = (None, cImGui_ImplMetal_DestroyDeviceObjects B w)"

fun library :: "'w backend \<Rightarrow> backend_call \<Rightarrow> 'w \<Rightarrow> bool option \<times> 'w" where
  "library B (Backend_Init device) w = flagged (ImGui_ImplMetal_Init B device w)"
| "library B Backend_Shutdown w = (None, ImGui_ImplMetal_Shutdown B w)"
| "library B (Backend_NewFrame rpd) w = (None, ImGui_ImplMetal_NewFrame B rpd w)"
| "library B (Backend_RenderDrawData dd cb ce) w =
     (None, ImGui_ImplMetal_RenderDrawData B dd cb ce w)"
| "library B (Backend_CreateDeviceObjects device) w =
     flagged (ImGui_ImplMetal_CreateDeviceObjects B device w)"
| "library B Backend_DestroyDeviceObjects w = (None, ImGui_ImplMetal_DestroyDeviceObjects B w)"

text \<open>The backend call that corresponds to a call on the interface.\<close>

fun translate :: "call \<Rightarrow> backend_call" where
  "translate (Init device) = Backend_Init (bridge MTLDevice device)"
| "translate Shutdown = Backend_Shutdown"
| "translate (NewFrame rpd) = Backend_NewFrame (bridge MTLRenderPassDescriptor rpd)"
| "translate (RenderDrawData dd cb ce) =
     Backend_RenderDrawData (bridge ImDrawData dd) (bridge MTLCommandBuffer cb)
       (bridge MTLRenderCommandEncoder ce)"
| "translate (CreateDeviceObjects device) = Backend_CreateDeviceObjects (bridge MTLDevice device)"
| "translate DestroyDeviceObjects = Backend_DestroyDeviceObjects"

text \<open>A sequence of calls, each on the state the one before left; the flags in order.\<close>

fun run_shim :: "'w backend \<Rightarrow> call list \<Rightarrow> 'w \<Rightarrow> bool option list \<times> 'w" where
  "run_shim B [] w = ([], w)"
| "run_shim B (c # cs) w =
     (case shim B c w of (r, w') \<Rightarrow> (case run_shim B cs w' of (rs, w'') \<Rightarrow> (r # rs, w'')))"

fun run_library :: "'w backend \<Rightarrow> backend_call list \<Rightarrow> 'w \<Rightarrow> bool option list \<times> 'w" where
  "run_library B [] w = ([], w)"
| "run_library B (c # cs) w =
     (case library B c w of (r, w') \<Rightarrow> (case run_library B cs w' of (rs, w'') \<Rightarrow> (r # rs, w'')))"

text \<open>The handles of a call and the native references of a backend call, in order.\<close>

fun handles :: "call \<Rightarrow> handle list" where
  "handles (Init device) = [device]"
| "handles Shutdown = []"
| "handles (NewFrame rpd) = [rpd]"
| "handles (RenderDrawData dd cb ce) = [dd, cb, ce]"
| "handles (CreateDeviceObjects device) = [device]"
| "handles DestroyDeviceObjects = []"

fun references :: "backend_call \<Rightarrow> native list" where
  "references (Backend_Init device) = [device]"
| "references Backend_Shutdown = []"
| "references (Backend_NewFrame rpd) = [rpd]"
| "references (Backend_RenderDrawData dd cb ce) = [dd, cb, ce]"
| "references (Backend_CreateDeviceObjects device) = [device]"
| "references Backend_DestroyDeviceObjects = []"

text \<open>
  A backend that does nothing: each entry point returns the state it was given, and a
  fixed flag where it returns one. Run over it, a function of the interface shows
  the effect of its own code alone.
\<close>

definition inert :: "bool \<Rightarrow> 'w backend" where
  "inert ok =
     \<lparr> ImGui_ImplMetal_Init = (\<lambda>device w. (ok, w)),
       ImGui_ImplMetal_Shutdown = (\<lambda>w. w),
       ImGui_ImplMetal_NewFrame = (\<lambda>rpd w. w),
       ImGui_ImplMetal_RenderDrawData = (\<lambda>dd cb ce w. w),
       ImGui_ImplMetal_CreateDeviceObjects = (\<lambda>device w. (ok, w)),
       ImGui_ImplMetal_DestroyDeviceObjects = (\<lambda>w. w) \<rparr>"

fun returns_flag :: "call \<Rightarrow> bool" where
  "returns_flag (Init device) = True"
| "returns_flag (CreateDeviceObjects device) = True"
| "returns_flag c = False"

text \<open>
  A backend that writes. Its state maps each address to a number standing for the
  object there; Init, NewFrame and RenderDrawData add one to the object their
  device, render-pass descriptor and command encoder refer to.
\<close>

definition marking :: "(handle \<Rightarrow> nat) backend" where
  "marking =
     \<lparr> ImGui_ImplMetal_Init = (\<lambda>device w. (True, w(address device := Suc (w (address device))))),
       ImGui_ImplMetal_Shutdown = (\<lambda>w. w),
       ImGui_ImplMetal_NewFrame = (\<lambda>rpd w. w(address rpd := Suc (w (address rpd)))),
       ImGui_ImplMetal_RenderDrawData = (\<lambda>dd cb ce w. w(address ce := Suc (w (address ce)))),
       ImGui_ImplMetal_CreateDeviceObjects = (\<lambda>device w. (True, w)),
       ImGui_ImplMetal_DestroyDeviceObjects = (\<lambda>w. w) \<rparr>"

subsection \<open>The call order\<close>

text \<open>
  The events of a run are the calls on the interface and the two calls of the GUI
  library that the order refers to: its own frame-start call and its own render call.
\<close>

datatype event =
    Binding call
  | ImGui_NewFrame
  | ImGui_Render

text \<open>
  Where a run stands: the backend is not initialised; it is initialised and no frame
  has begun; a frame has begun with \<open>NewFrame\<close>; the GUI library has started that
  frame; the GUI library has rendered it.
\<close>

datatype phase = Uninitialized | Idle | Begun | Opened | Rendered

text \<open>
  Modelled from the spec: the call order a caller must respect (sections 4 and 5, and
  the header's comments on \<open>NewFrame\<close> and \<open>RenderDrawData\<close>); the code that relies
  on it is the wrapped backend, missing from the sources. One equation per operation,
  with the phases it may be called in: Init once, before any frame; Shutdown after
  Init, with no frame under way; NewFrame to begin a frame; the GUI library's
  frame-start call after NewFrame; the GUI library's render call after its
  frame-start call; RenderDrawData after the GUI library's render call. The spec
  orders the two device-object hooks against nothing, so they are allowed anywhere.
\<close>

fun step :: "phase \<Rightarrow> event \<Rightarrow> phase option" where
  "step p (Binding (Init device)) = (if p = Uninitialized then Some Idle else None)"
| "step p (Binding Shutdown) = (if p = Idle \<or> p = Rendered then Some Uninitialized else None)"
| "step p (Binding (NewFrame rpd)) = (if p = Idle \<or> p = Rendered then Some Begun else None)"
| "step p ImGui_NewFrame = (if p = Begun then Some Opened else None)"
| "step p ImGui_Render = (if p = Opened then Some Rendered else None)"
| "step p (Binding (RenderDrawData dd cb ce)) = (if p = Rendered then Some Rendered else None)"
| "step p (Binding (CreateDeviceObjects device)) = Some p"
| "step p (Binding DestroyDeviceObjects) = Some p"

fun run :: "phase \<Rightarrow> event list \<Rightarrow> phase option" where
  "run p [] = Some p"
| "run p (e # es) = (case step p e of None \<Rightarrow> None | Some p' \<Rightarrow> run p' es)"

definition legal :: "event list \<Rightarrow> bool" where
  "legal t = (run Uninitialized t \<noteq> None)"

text \<open>The kinds of event the order speaks of.\<close>

fun is_Init :: "event \<Rightarrow> bool" where
  "is_Init (Binding (Init device)) = True"
| "is_Init e = False"

fun is_Shutdown :: "event \<Rightarrow> bool" where
  "is_Shutdown (Binding Shutdown) = True"
| "is_Shutdown e = False"

fun is_NewFrame :: "event \<Rightarrow> bool" where
  "is_NewFrame (Binding (NewFrame rpd)) = True"
| "is_NewFrame e = False"

fun is_RenderDrawData :: "event \<Rightarrow> bool" where
  "is_RenderDrawData (Binding (RenderDrawData dd cb ce)) = True"
| "is_RenderDrawData e = False"

fun is_device_object_hook :: "event \<Rightarrow> bool" where
  "is_device_object_hook (Binding (CreateDeviceObjects device)) = True"
| "is_device_object_hook (Binding DestroyDeviceObjects) = True"
| "is_device_object_hook e = False"

text \<open>
  What the events before a call say, each as a property of the prefix \<open>pre\<close> of the
  run that precedes the call.

  \<open>initialised\<close>: there is an Init with no Shutdown after it.
  \<open>frame_begun\<close>: there is a NewFrame with nothing after it but device-object hooks,
  so no other frame event lies between it and the call.
  \<open>frame_rendered\<close>: there is a render call of the GUI library with nothing after it
  but RenderDrawData and device-object hooks, so no later frame has begun.
  \<open>frames_complete\<close>: every NewFrame is followed by a render call of the GUI library.
\<close>

definition initialised :: "event list \<Rightarrow> bool" where
  "initialised pre = (\<exists>a i b. pre = a @ i # b \<and> is_Init i \<and> \<not> list_ex is_Shutdown b)"

definition frame_begun :: "event list \<Rightarrow> bool" where
  "frame_begun pre = (\<exists>a n b. pre = a @ n # b \<and> is_NewFrame n \<and> list_all is_device_object_hook b)"

definition frame_rendered :: "event list \<Rightarrow> bool" where
  "frame_rendered pre =
     (\<exists>a b. pre = a @ ImGui_Render # b
        \<and> list_all (\<lambda>e. is_RenderDrawData e \<or> is_device_object_hook e) b)"

definition frames_complete :: "event list \<Rightarrow> bool" where
  "frames_complete pre =
     (\<forall>a n b. pre = a @ n # b \<and> is_NewFrame n \<longrightarrow> ImGui_Render \<in> set b)"

section \<open>What the header declares\<close>

lemma interface_C:
  "interface C =
    [ (Typedef (Pointer Void) ''cImGui_MTLDevice'', C_linkage),
      (Typedef (Pointer Void) ''cImGui_MTLCommandBuffer'', C_linkage),
      (Typedef (Pointer Void) ''cImGui_MTLRenderCommandEncoder'', C_linkage),
      (Typedef (Pointer Void) ''cImGui_MTLRenderPassDescriptor'', C_linkage),
      (Typedef (Pointer Void) ''cImGui_ImDrawData'', C_linkage),
      (Prototype Bool ''cImGui_ImplMetal_Init''
        (Params [(Named ''cImGui_MTLDevice'', ''device'')]), C_linkage),
      (Prototype Void ''cImGui_ImplMetal_Shutdown'' VoidParams, C_linkage),
      (Prototype Void ''cImGui_ImplMetal_NewFrame''
        (Params [(Named ''cImGui_MTLRenderPassDescriptor'', ''renderPassDescriptor'')]),
        C_linkage),
      (Prototype Void ''cImGui_ImplMetal_RenderDrawData''
        (Params [(Named ''cImGui_ImDrawData'', ''drawData''),
                 (Named ''cImGui_MTLCommandBuffer'', ''commandBuffer''),
                 (Named ''cImGui_MTLRenderCommandEncoder'', ''commandEncoder'')]),
        C_linkage),
      (Prototype Bool ''cImGui_ImplMetal_CreateDeviceObjects''
        (Params [(Named ''cImGui_MTLDevice'', ''device'')]), C_linkage),
      (Prototype Void ''cImGui_ImplMetal_DestroyDeviceObjects'' VoidParams, C_linkage) ]"
  by (simp add: interface_def cimgui_impl_metal_h_def)

lemma interface_Cplusplus: "interface Cplusplus = interface C"
  by (simp add: interface_def cimgui_impl_metal_h_def)

lemma declarations_eq:
  "declarations =
    [ Typedef (Pointer Void) ''cImGui_MTLDevice'',
      Typedef (Pointer Void) ''cImGui_MTLCommandBuffer'',
      Typedef (Pointer Void) ''cImGui_MTLRenderCommandEncoder'',
      Typedef (Pointer Void) ''cImGui_MTLRenderPassDescriptor'',
      Typedef (Pointer Void) ''cImGui_ImDrawData'',
      Prototype Bool ''cImGui_ImplMetal_Init''
        (Params [(Named ''cImGui_MTLDevice'', ''device'')]),
      Prototype Void ''cImGui_ImplMetal_Shutdown'' VoidParams,
      Prototype Void ''cImGui_ImplMetal_NewFrame''
        (Params [(Named ''cImGui_MTLRenderPassDescriptor'', ''renderPassDescriptor'')]),
      Prototype Void ''cImGui_ImplMetal_RenderDrawData''
        (Params [(Named ''cImGui_ImDrawData'', ''drawData''),
                 (Named ''cImGui_MTLCommandBuffer'', ''commandBuffer''),
                 (Named ''cImGui_MTLRenderCommandEncoder'', ''commandEncoder'')]),
      Prototype Bool ''cImGui_ImplMetal_CreateDeviceObjects''
        (Params [(Named ''cImGui_MTLDevice'', ''device'')]),
      Prototype Void ''cImGui_ImplMetal_DestroyDeviceObjects'' VoidParams ]"
  by (simp add: declarations_def interface_C)

lemma typedefs_eq:
  "typedefs =
    [ Typedef (Pointer Void) ''cImGui_MTLDevice'',
      Typedef (Pointer Void) ''cImGui_MTLCommandBuffer'',
      Typedef (Pointer Void) ''cImGui_MTLRenderCommandEncoder'',
      Typedef (Pointer Void) ''cImGui_MTLRenderPassDescriptor'',
      Typedef (Pointer Void) ''cImGui_ImDrawData'' ]"
  by (simp add: typedefs_def declarations_eq)

lemma prototypes_eq:
  "prototypes =
    [ Prototype Bool ''cImGui_ImplMetal_Init''
        (Params [(Named ''cImGui_MTLDevice'', ''device'')]),
      Prototype Void ''cImGui_ImplMetal_Shutdown'' VoidParams,
      Prototype Void ''cImGui_ImplMetal_NewFrame''
        (Params [(Named ''cImGui_MTLRenderPassDescriptor'', ''renderPassDescriptor'')]),
      Prototype Void ''cImGui_ImplMetal_RenderDrawData''
        (Params [(Named ''cImGui_ImDrawData'', ''drawData''),
                 (Named ''cImGui_MTLCommandBuffer'', ''commandBuffer''),
                 (Named ''cImGui_MTLRenderCommandEncoder'', ''commandEncoder'')]),
      Prototype Bool ''cImGui_ImplMetal_CreateDeviceObjects''
        (Params [(Named ''cImGui_MTLDevice'', ''device'')]),
      Prototype Void ''cImGui_ImplMetal_DestroyDeviceObjects'' VoidParams ]"
  by (simp add: prototypes_def declarations_eq)

lemma header_env_eq:
  "header_env =
    [(''cImGui_ImDrawData'', Pointer Void),
     (''cImGui_MTLRenderPassDescriptor'', Pointer Void),
     (''cImGui_MTLRenderCommandEncoder'', Pointer Void),
     (''cImGui_MTLCommandBuffer'', Pointer Void),
     (''cImGui_MTLDevice'', Pointer Void)]"
  by (simp add: header_env_def declarations_eq)

lemma handle_types_eq:
  "handle_types =
    [Named ''cImGui_MTLDevice'', Named ''cImGui_MTLCommandBuffer'',
     Named ''cImGui_MTLRenderCommandEncoder'',
     Named ''cImGui_MTLRenderPassDescriptor'', Named ''cImGui_ImDrawData'']"
  by (simp add: handle_types_def typedefs_eq)

text \<open>
  Claim C1. The interface is exactly five typedefs, each of the type \<open>void*\<close>, and six
  function prototypes, all with C linkage. The header's declarations are the five
  typedefs followed by the six prototypes and nothing else; a C and a C++ compiler
  read the same eleven declarations off it, and each of them has C language linkage
  in both languages.
\<close>

theorem public_interface:
  "map signature typedefs =
     [ (''cImGui_MTLDevice'', Pointer Void, []),
       (''cImGui_MTLCommandBuffer'', Pointer Void, []),
       (''cImGui_MTLRenderCommandEncoder'', Pointer Void, []),
       (''cImGui_MTLRenderPassDescriptor'', Pointer Void, []),
       (''cImGui_ImDrawData'', Pointer Void, []) ]
   \<and> map signature prototypes =
     [ (''cImGui_ImplMetal_Init'', Bool, [Named ''cImGui_MTLDevice'']),
       (''cImGui_ImplMetal_Shutdown'', Void, []),
       (''cImGui_ImplMetal_NewFrame'', Void, [Named ''cImGui_MTLRenderPassDescriptor'']),
       (''cImGui_ImplMetal_RenderDrawData'', Void,
          [Named ''cImGui_ImDrawData'', Named ''cImGui_MTLCommandBuffer'',
           Named ''cImGui_MTLRenderCommandEncoder'']),
       (''cImGui_ImplMetal_CreateDeviceObjects'', Bool, [Named ''cImGui_MTLDevice'']),
       (''cImGui_ImplMetal_DestroyDeviceObjects'', Void, []) ]
   \<and> declarations = typedefs @ prototypes
   \<and> (\<forall>lang. map fst (interface lang) = declarations)
   \<and> (\<forall>lang. map snd (interface lang) = replicate 11 C_linkage)"
proof -
  have "map snd (interface lang) = replicate 11 C_linkage" for lang
    by (cases lang) (simp_all add: interface_Cplusplus interface_C eval_nat_numeral)
  moreover have "map fst (interface lang) = declarations" for lang
    by (cases lang) (simp_all add: interface_Cplusplus declarations_def)
  moreover have "declarations = typedefs @ prototypes"
    by (simp add: typedefs_eq prototypes_eq declarations_eq)
  moreover have "map signature typedefs =
     [ (''cImGui_MTLDevice'', Pointer Void, []),
       (''cImGui_MTLCommandBuffer'', Pointer Void, []),
       (''cImGui_MTLRenderCommandEncoder'', Pointer Void, []),
       (''cImGui_MTLRenderPassDescriptor'', Pointer Void, []),
       (''cImGui_ImDrawData'', Pointer Void, []) ]"
    by (simp add: typedefs_eq parameter_types_def)
  moreover have "map signature prototypes =
     [ (''cImGui_ImplMetal_Init'', Bool, [Named ''cImGui_MTLDevice'']),
       (''cImGui_ImplMetal_Shutdown'', Void, []),
       (''cImGui_ImplMetal_NewFrame'', Void, [Named ''cImGui_MTLRenderPassDescriptor'']),
       (''cImGui_ImplMetal_RenderDrawData'', Void,
          [Named ''cImGui_ImDrawData'', Named ''cImGui_MTLCommandBuffer'',
           Named ''cImGui_MTLRenderCommandEncoder'']),
       (''cImGui_ImplMetal_CreateDeviceObjects'', Bool, [Named ''cImGui_MTLDevice'']),
       (''cImGui_ImplMetal_DestroyDeviceObjects'', Void, []) ]"
    by (simp add: prototypes_eq parameter_types_def)
  ultimately show ?thesis
    by blast
qed

text \<open>
  Claim C2. Exactly two of the six functions return \<open>bool\<close>, \<open>cImGui_ImplMetal_Init\<close>
  and \<open>cImGui_ImplMetal_CreateDeviceObjects\<close>; the other four return \<open>void\<close>. No
  function has a channel for an error code or message: every return type is \<open>bool\<close>
  or \<open>void\<close>, every parameter is a \<open>void*\<close> handle passed by value, and the header
  declares nothing but the typedefs and the prototypes.
\<close>

theorem result_types:
  "map decl_name (filter (\<lambda>d. return_type d = Bool) prototypes) =
     [''cImGui_ImplMetal_Init'', ''cImGui_ImplMetal_CreateDeviceObjects'']
   \<and> map decl_name (filter (\<lambda>d. return_type d = Void) prototypes) =
     [''cImGui_ImplMetal_Shutdown'', ''cImGui_ImplMetal_NewFrame'',
      ''cImGui_ImplMetal_RenderDrawData'', ''cImGui_ImplMetal_DestroyDeviceObjects'']
   \<and> length prototypes = 6
   \<and> list_all (\<lambda>d. return_type d = Bool \<or> return_type d = Void) prototypes
   \<and> list_all (\<lambda>d. list_all (\<lambda>t. canonical header_env t = Pointer Void) (parameter_types d)) prototypes
   \<and> filter (\<lambda>d. \<not> is_typedef d \<and> \<not> is_prototype d) declarations = []"
  by (simp add: prototypes_eq parameter_types_def header_env_eq declarations_eq)

text \<open>
  Claim C3. The parameter list of each function: Init takes a device handle, Shutdown
  nothing, NewFrame a render-pass-descriptor handle, RenderDrawData a draw-data
  handle, a command-buffer handle and a render-command-encoder handle in that order,
  CreateDeviceObjects a device handle, DestroyDeviceObjects nothing.
\<close>

theorem parameter_lists:
  "map (\<lambda>d. (decl_name d, parameter_types d)) prototypes =
     [ (''cImGui_ImplMetal_Init'', [Named ''cImGui_MTLDevice'']),
       (''cImGui_ImplMetal_Shutdown'', []),
       (''cImGui_ImplMetal_NewFrame'', [Named ''cImGui_MTLRenderPassDescriptor'']),
       (''cImGui_ImplMetal_RenderDrawData'',
          [Named ''cImGui_ImDrawData'', Named ''cImGui_MTLCommandBuffer'',
           Named ''cImGui_MTLRenderCommandEncoder'']),
       (''cImGui_ImplMetal_CreateDeviceObjects'', [Named ''cImGui_MTLDevice'']),
       (''cImGui_ImplMetal_DestroyDeviceObjects'', []) ]"
  by (simp add: prototypes_eq parameter_types_def)

text \<open>
  Claim C6, as the spec states it: the number of distinct opaque type aliases the
  header declares is four. The header declares five.
\<close>

theorem four_aliases_counterexample:
  "card (set (map decl_name typedefs)) \<noteq> 4"
  by (simp add: typedefs_eq)

text \<open>
  Claim C6, amended: the file's components are five opaque type aliases (device,
  command buffer, render command encoder, render pass descriptor, draw data), with
  five distinct names, and six function declarations.
\<close>

theorem five_aliases:
  "length typedefs = 5 \<and> distinct (map decl_name typedefs) \<and> card (set (map decl_name typedefs)) = 5
   \<and> map decl_name typedefs =
     [''cImGui_MTLDevice'', ''cImGui_MTLCommandBuffer'', ''cImGui_MTLRenderCommandEncoder'',
      ''cImGui_MTLRenderPassDescriptor'', ''cImGui_ImDrawData'']
   \<and> length prototypes = 6"
  by (simp add: typedefs_eq prototypes_eq)

subsection \<open>Handle types\<close>

lemma canonical_handle:
  "t \<in> set handle_types \<Longrightarrow> canonical header_env t = Pointer Void"
  by (auto simp add: handle_types_eq header_env_eq)

lemma compatible_handles:
  "a \<in> set handle_types \<Longrightarrow> b \<in> set handle_types \<Longrightarrow> compatible a b"
  by (simp add: compatible_def canonical_handle)

lemma list_all2_compatible:
  "set ps \<subseteq> set handle_types \<Longrightarrow> set args \<subseteq> set handle_types \<Longrightarrow>
   length args = length ps \<Longrightarrow> list_all2 compatible ps args"
  by (auto simp add: list_all2_conv_all_nth intro!: compatible_handles)

lemma parameters_are_handles:
  "\<forall>d \<in> set prototypes. set (parameter_types d) \<subseteq> set handle_types"
  by (simp add: prototypes_eq handle_types_eq parameter_types_def)

lemma find_prototype:
  "\<forall>d \<in> set prototypes. find (\<lambda>x. decl_name x = decl_name d) prototypes = Some d"
  by (simp add: prototypes_eq)

text \<open>
  The type check does reject a call: on a type that is no handle, and on a wrong
  number of arguments.
\<close>

lemma call_rejected_examples:
  "\<not> call_accepted ''cImGui_ImplMetal_Init'' [Bool]"
  "\<not> call_accepted ''cImGui_ImplMetal_Init'' []"
  "\<not> call_accepted ''cImGui_ImplMetal_Shutdown'' [Named ''cImGui_MTLDevice'']"
  by (simp_all add: call_accepted_def prototypes_eq compatible_def header_env_eq
        parameter_types_def)

text \<open>
  Claim C9. All five handle typedefs are aliases of the one type \<open>void*\<close>, so the
  interface's types do not tell the kinds of handle apart: any two handle types are
  compatible, and a call of any of the six functions is accepted whenever it has the
  right number of arguments and each is of some handle type, whichever it is. A
  command-buffer handle is accepted as the device argument of Init.
\<close>

theorem handle_kinds_not_distinguished:
  "(\<forall>t \<in> set handle_types. canonical header_env t = Pointer Void)
   \<and> (\<forall>a \<in> set handle_types. \<forall>b \<in> set handle_types. compatible a b)
   \<and> (\<forall>d \<in> set prototypes. \<forall>args.
         set args \<subseteq> set handle_types \<and> length args = length (parameter_types d)
           \<longrightarrow> call_accepted (decl_name d) args)"
proof (intro conjI ballI allI impI)
  fix t assume "t \<in> set handle_types"
  then show "canonical header_env t = Pointer Void" by (rule canonical_handle)
next
  fix a b assume "a \<in> set handle_types" "b \<in> set handle_types"
  then show "compatible a b" by (rule compatible_handles)
next
  fix d args
  assume d: "d \<in> set prototypes"
    and args: "set args \<subseteq> set handle_types \<and> length args = length (parameter_types d)"
  from d have ps: "set (parameter_types d) \<subseteq> set handle_types"
    using parameters_are_handles by blast
  from d have f: "find (\<lambda>x. decl_name x = decl_name d) prototypes = Some d"
    using find_prototype by blast
  have "list_all2 compatible (parameter_types d) args"
    using ps args by (simp add: list_all2_compatible)
  then show "call_accepted (decl_name d) args"
    by (simp add: call_accepted_def f)
qed

theorem handle_kinds_not_distinguished_witness:
  "Named ''cImGui_MTLCommandBuffer'' \<in> set handle_types
   \<and> Named ''cImGui_MTLDevice'' \<in> set handle_types
   \<and> canonical header_env (Named ''cImGui_MTLCommandBuffer'') = Pointer Void
   \<and> compatible (Named ''cImGui_MTLCommandBuffer'') (Named ''cImGui_MTLDevice'')
   \<and> Prototype Bool ''cImGui_ImplMetal_Init'' (Params [(Named ''cImGui_MTLDevice'', ''device'')])
        \<in> set prototypes
   \<and> call_accepted ''cImGui_ImplMetal_Init'' [Named ''cImGui_MTLCommandBuffer'']"
proof -
  let ?init = "Prototype Bool ''cImGui_ImplMetal_Init''
      (Params [(Named ''cImGui_MTLDevice'', ''device'')])"
  have cb: "Named ''cImGui_MTLCommandBuffer'' \<in> set handle_types"
    and dev: "Named ''cImGui_MTLDevice'' \<in> set handle_types"
    by (simp_all add: handle_types_eq)
  have init: "?init \<in> set prototypes"
    by (simp add: prototypes_eq)
  have args: "set [Named ''cImGui_MTLCommandBuffer''] \<subseteq> set handle_types
      \<and> length [Named ''cImGui_MTLCommandBuffer''] = length (parameter_types ?init)"
    using cb by (simp add: parameter_types_def)
  have name: "decl_name ?init = ''cImGui_ImplMetal_Init''"
    by simp
  note all = handle_kinds_not_distinguished
  from all cb have 1: "canonical header_env (Named ''cImGui_MTLCommandBuffer'') = Pointer Void"
    by blast
  from all cb dev have 2: "compatible (Named ''cImGui_MTLCommandBuffer'') (Named ''cImGui_MTLDevice'')"
    by blast
  from all init args have "call_accepted (decl_name ?init) [Named ''cImGui_MTLCommandBuffer'']"
    by blast
  with name have 3: "call_accepted ''cImGui_ImplMetal_Init'' [Named ''cImGui_MTLCommandBuffer'']"
    by simp
  from cb dev init 1 2 3 show ?thesis by blast
qed

section \<open>The six functions forward to the backend\<close>

lemma shim_library: "shim B c w = library B (translate c) w"
  by (cases c)
     (simp_all add: cImGui_ImplMetal_Init_def cImGui_ImplMetal_Shutdown_def
        cImGui_ImplMetal_NewFrame_def cImGui_ImplMetal_RenderDrawData_def
        cImGui_ImplMetal_CreateDeviceObjects_def cImGui_ImplMetal_DestroyDeviceObjects_def)

lemma run_shim_library: "run_shim B cs w = run_library B (map translate cs) w"
  by (induction cs arbitrary: w) (simp_all add: shim_library)

text \<open>
  Claim C7. Each of the six functions is a pass-through: for every backend, every
  argument and every state, what it returns and the state it leaves are those of
  the backend's function of the same name on the translated handles. The same holds
  of a call taken as a value, and of every sequence of calls: the flags returned and
  the final state are those of the translated sequence run on the backend.
\<close>

theorem pass_through:
  "cImGui_ImplMetal_Init B device w = ImGui_ImplMetal_Init B (bridge MTLDevice device) w
   \<and> cImGui_ImplMetal_Shutdown B w = ImGui_ImplMetal_Shutdown B w
   \<and> cImGui_ImplMetal_NewFrame B rpd w =
       ImGui_ImplMetal_NewFrame B (bridge MTLRenderPassDescriptor rpd) w
   \<and> cImGui_ImplMetal_RenderDrawData B dd cb ce w =
       ImGui_ImplMetal_RenderDrawData B (bridge ImDrawData dd) (bridge MTLCommandBuffer cb)
         (bridge MTLRenderCommandEncoder ce) w
   \<and> cImGui_ImplMetal_CreateDeviceObjects B device w =
       ImGui_ImplMetal_CreateDeviceObjects B (bridge MTLDevice device) w
   \<and> cImGui_ImplMetal_DestroyDeviceObjects B w = ImGui_ImplMetal_DestroyDeviceObjects B w
   \<and> shim B c w = library B (translate c) w
   \<and> run_shim B cs w = run_library B (map translate cs) w"
  by (simp add: cImGui_ImplMetal_Init_def cImGui_ImplMetal_Shutdown_def
        cImGui_ImplMetal_NewFrame_def cImGui_ImplMetal_RenderDrawData_def
        cImGui_ImplMetal_CreateDeviceObjects_def cImGui_ImplMetal_DestroyDeviceObjects_def
        shim_library run_shim_library)

lemma shim_inert: "shim (inert ok) c w = (if returns_flag c then Some ok else None, w)"
  by (cases c)
     (simp_all add: inert_def cImGui_ImplMetal_Init_def cImGui_ImplMetal_Shutdown_def
        cImGui_ImplMetal_NewFrame_def cImGui_ImplMetal_RenderDrawData_def
        cImGui_ImplMetal_CreateDeviceObjects_def cImGui_ImplMetal_DestroyDeviceObjects_def)

lemma addresses_translate: "map address (references (translate c)) = handles c"
  by (cases c) (simp_all add: bridge_def)

text \<open>
  Claim C8. The functions' own code neither reads nor changes what a handle refers
  to. For every backend, call and state, the call on the interface returns what the
  backend's call returns on the translated call and the very same state: the state
  reaches the backend as it was, and nothing of the result depends on it but through
  the backend. The translated call is computed from the handles alone, and its
  references carry exactly the addresses received, in order. Over a backend that
  does nothing, a call returns the state it was given, whatever the handles are. And
  for every way \<open>deref\<close> of reading the object at a handle out of the state: if the
  backend's call leaves that object as it was, so does the call on the interface.
\<close>

theorem handles_only_passed_through:
  "shim B c w = library B (translate c) w
   \<and> map address (references (translate c)) = handles c
   \<and> shim (inert ok) c w = (if returns_flag c then Some ok else None, w)
   \<and> (deref (snd (library B (translate c) w)) h = deref w h
        \<longrightarrow> deref (snd (shim B c w)) h = deref w h)"
proof (intro conjI)
  show "shim B c w = library B (translate c) w"
    by (rule shim_library)
  show "map address (references (translate c)) = handles c"
    by (rule addresses_translate)
  show "shim (inert ok) c w = (if returns_flag c then Some ok else None, w)"
    by (rule shim_inert)
  show "deref (snd (library B (translate c) w)) h = deref w h
        \<longrightarrow> deref (snd (shim B c w)) h = deref w h"
    by (simp add: shim_library)
qed

text \<open>
  The statement at the writing backend, on a state with 42 at address 7 and 0
  elsewhere, for NewFrame on the handle 7: the object at address 8 is left as it was
  by the backend's call, hence by the call on the interface; the object at address 7
  is changed, and the change is the backend's.
\<close>

theorem handles_only_passed_through_witness:
  "snd (library marking (translate (NewFrame 7)) (\<lambda>a. if a = 7 then 42 else 0)) 8
     = (\<lambda>a::handle. if a = 7 then 42 else (0::nat)) 8
   \<and> snd (shim marking (NewFrame 7) (\<lambda>a. if a = 7 then 42 else 0)) 8
     = (\<lambda>a::handle. if a = 7 then 42 else (0::nat)) 8
   \<and> shim marking (NewFrame 7) (\<lambda>a. if a = 7 then 42 else 0)
     = library marking (translate (NewFrame 7)) (\<lambda>a. if a = 7 then 42 else 0)
   \<and> snd (shim marking (NewFrame 7) (\<lambda>a. if a = 7 then 42 else 0)) 7 = 43
   \<and> map address (references (translate (NewFrame 7))) = [7]"
  using handles_only_passed_through
    [of marking "NewFrame 7" "\<lambda>a::handle. if a = 7 then 42 else (0::nat)" True
        "\<lambda>w a. w a" 8]
  by (simp add: marking_def bridge_def cImGui_ImplMetal_NewFrame_def)

text \<open>
  A function that read the object at its handle would not pass: here NewFrame looks
  at the object and skips the backend's call when it is 0, and on the writing backend
  it differs from the backend's call.
\<close>

lemma inspecting_differs:
  "(if (\<lambda>a::handle. 0::nat) 7 = 0 then (None, (\<lambda>a::handle. 0::nat))
    else library marking (translate (NewFrame 7)) (\<lambda>a. 0))
   \<noteq> library marking (translate (NewFrame 7)) (\<lambda>a. 0)"
  by (simp add: marking_def bridge_def fun_eq_iff)

section \<open>The call order\<close>

lemma run_snoc:
  "run p (es @ [e]) = (case run p es of None \<Rightarrow> None | Some q \<Rightarrow> step q e)"
  by (induction es arbitrary: p) (simp_all split: option.splits)

lemma run_append:
  "run p (xs @ ys) = (case run p xs of None \<Rightarrow> None | Some q \<Rightarrow> run q ys)"
  by (induction xs arbitrary: p) (simp_all split: option.splits)

lemma run_split:
  assumes "run p (pre @ e # post) \<noteq> None"
  obtains q where "run p pre = Some q" and "step q e \<noteq> None"
  using assms by (auto simp add: run_append split: option.splits)

lemma initialised_Init: "is_Init e \<Longrightarrow> initialised (pre @ [e])"
  unfolding initialised_def by (rule exI [of _ pre], rule exI [of _ e], rule exI [of _ "[]"]) simp

lemma initialised_snoc:
  assumes "initialised pre" and "\<not> is_Shutdown e"
  shows "initialised (pre @ [e])"
proof -
  from assms(1) obtain a i b where "pre = a @ i # b" "is_Init i" "\<not> list_ex is_Shutdown b"
    unfolding initialised_def by blast
  with assms(2) have "pre @ [e] = a @ i # (b @ [e]) \<and> is_Init i \<and> \<not> list_ex is_Shutdown (b @ [e])"
    by (simp add: list_ex_iff)
  then show ?thesis unfolding initialised_def by blast
qed

lemma frame_begun_NewFrame: "is_NewFrame e \<Longrightarrow> frame_begun (pre @ [e])"
  unfolding frame_begun_def by (rule exI [of _ pre], rule exI [of _ e], rule exI [of _ "[]"]) simp

lemma frame_begun_snoc:
  assumes "frame_begun pre" and "is_device_object_hook e"
  shows "frame_begun (pre @ [e])"
proof -
  from assms(1) obtain a n b where "pre = a @ n # b" "is_NewFrame n" "list_all is_device_object_hook b"
    unfolding frame_begun_def by blast
  with assms(2) have "pre @ [e] = a @ n # (b @ [e]) \<and> is_NewFrame n
      \<and> list_all is_device_object_hook (b @ [e])"
    by simp
  then show ?thesis unfolding frame_begun_def by blast
qed

lemma frame_rendered_Render: "frame_rendered (pre @ [ImGui_Render])"
  unfolding frame_rendered_def by (rule exI [of _ pre], rule exI [of _ "[]"]) simp

lemma frame_rendered_snoc:
  assumes "frame_rendered pre" and "is_RenderDrawData e \<or> is_device_object_hook e"
  shows "frame_rendered (pre @ [e])"
proof -
  from assms(1) obtain a b where "pre = a @ ImGui_Render # b"
      "list_all (\<lambda>e. is_RenderDrawData e \<or> is_device_object_hook e) b"
    unfolding frame_rendered_def by blast
  with assms(2) have "pre @ [e] = a @ ImGui_Render # (b @ [e])
      \<and> list_all (\<lambda>e. is_RenderDrawData e \<or> is_device_object_hook e) (b @ [e])"
    by simp
  then show ?thesis unfolding frame_rendered_def by blast
qed

lemma frames_complete_Nil: "frames_complete []"
  by (simp add: frames_complete_def)

lemma snoc_eq_split:
  assumes "pre @ [e] = a @ n # b"
  shows "(b = [] \<and> n = e \<and> pre = a) \<or> (\<exists>b'. b = b' @ [e] \<and> pre = a @ n # b')"
proof (cases b rule: rev_cases)
  case Nil
  with assms show ?thesis by simp
next
  case (snoc b' x)
  with assms have "pre @ [e] = (a @ n # b') @ [x]" by simp
  then have "pre = a @ n # b' \<and> e = x" by (simp only: append1_eq_conv)
  with snoc show ?thesis by simp
qed

lemma frames_complete_Render: "frames_complete (pre @ [ImGui_Render])"
  unfolding frames_complete_def
proof (intro allI impI)
  fix a n b
  assume h: "pre @ [ImGui_Render] = a @ n # b \<and> is_NewFrame n"
  then have "(b = [] \<and> n = ImGui_Render \<and> pre = a)
      \<or> (\<exists>b'. b = b' @ [ImGui_Render] \<and> pre = a @ n # b')"
    by (simp add: snoc_eq_split)
  with h show "ImGui_Render \<in> set b" by auto
qed

lemma frames_complete_snoc:
  assumes "frames_complete pre" and "\<not> is_NewFrame e"
  shows "frames_complete (pre @ [e])"
  unfolding frames_complete_def
proof (intro allI impI)
  fix a n b
  assume h: "pre @ [e] = a @ n # b \<and> is_NewFrame n"
  then have "(b = [] \<and> n = e \<and> pre = a) \<or> (\<exists>b'. b = b' @ [e] \<and> pre = a @ n # b')"
    by (simp add: snoc_eq_split)
  with h assms(2) obtain b' where b': "b = b' @ [e]" "pre = a @ n # b'" by auto
  with assms(1) h have "ImGui_Render \<in> set b'"
    unfolding frames_complete_def by blast
  with b' show "ImGui_Render \<in> set b" by simp
qed

lemma run_invariant:
  "run Uninitialized pre = Some p \<Longrightarrow>
     (p \<noteq> Uninitialized \<longrightarrow> initialised pre)
   \<and> (p = Begun \<longrightarrow> frame_begun pre)
   \<and> (p = Rendered \<longrightarrow> frame_rendered pre)
   \<and> (p = Uninitialized \<or> p = Idle \<or> p = Rendered \<longrightarrow> frames_complete pre)"
proof (induction pre arbitrary: p rule: rev_induct)
  case Nil
  then show ?case by (simp add: frames_complete_Nil)
next
  case (snoc e pre)
  from snoc.prems obtain q where q: "run Uninitialized pre = Some q" and s: "step q e = Some p"
    by (auto simp add: run_snoc split: option.splits)
  note IH = snoc.IH [OF q]
  show ?case
  proof (cases e)
    case (Binding c)
    show ?thesis
    proof (cases c)
      case (Init device)
      with Binding s IH show ?thesis
        by (simp add: initialised_Init frames_complete_snoc split: if_splits)
    next
      case Shutdown
      with Binding s IH show ?thesis
        by (auto simp add: frames_complete_snoc split: if_splits)
    next
      case (NewFrame rpd)
      with Binding s IH show ?thesis
        by (auto simp add: frame_begun_NewFrame initialised_snoc split: if_splits)
    next
      case (RenderDrawData dd cb ce)
      with Binding s IH show ?thesis
        by (simp add: initialised_snoc frame_rendered_snoc frames_complete_snoc
              split: if_splits)
    next
      case (CreateDeviceObjects device)
      with Binding s IH show ?thesis
        by (auto simp add: initialised_snoc frame_begun_snoc frame_rendered_snoc
              frames_complete_snoc)
    next
      case DestroyDeviceObjects
      with Binding s IH show ?thesis
        by (auto simp add: initialised_snoc frame_begun_snoc frame_rendered_snoc
              frames_complete_snoc)
    qed
  next
    case ImGui_NewFrame
    with s IH show ?thesis
      by (simp add: initialised_snoc split: if_splits)
  next
    case ImGui_Render
    with s IH show ?thesis
      by (simp add: initialised_snoc frame_rendered_Render frames_complete_Render
            split: if_splits)
  qed
qed

text \<open>
  The order does forbid runs: a frame operation or a Shutdown before Init, a second
  Shutdown with no Init between, a Shutdown with a frame under way, the GUI
  library's frame-start call without NewFrame, and RenderDrawData before the GUI
  library's render call.
\<close>

lemma illegal_examples:
  "\<not> legal [Binding (NewFrame 2)]"
  "\<not> legal [Binding (RenderDrawData 3 4 5)]"
  "\<not> legal [Binding Shutdown]"
  "\<not> legal [Binding (Init 1), Binding Shutdown, Binding Shutdown]"
  "\<not> legal [Binding (Init 1), Binding (NewFrame 2), Binding Shutdown]"
  "\<not> legal [Binding (Init 1), ImGui_NewFrame]"
  "\<not> legal [Binding (Init 1), Binding (NewFrame 2), ImGui_NewFrame,
              Binding (RenderDrawData 3 4 5)]"
  by (simp_all add: legal_def)

text \<open>
  Claim C4. In every legal run, at every call \<open>e\<close> of it, with \<open>pre\<close> the events before
  the call: a frame operation (NewFrame, RenderDrawData) has an Init before it with no
  Shutdown since; the GUI library's frame-start call has the frame's NewFrame before
  it; RenderDrawData has the GUI library's render call of that frame before it;
  Shutdown has an Init before it with no other Shutdown since, and every frame begun
  before it has been rendered.
\<close>

theorem call_order:
  assumes "legal t" and "t = pre @ e # post"
  shows "(is_NewFrame e \<or> is_RenderDrawData e \<longrightarrow> initialised pre)
       \<and> (e = ImGui_NewFrame \<longrightarrow> frame_begun pre)
       \<and> (is_RenderDrawData e \<longrightarrow> frame_rendered pre)
       \<and> (is_Shutdown e \<longrightarrow> initialised pre \<and> frames_complete pre)"
proof -
  from assms have "run Uninitialized (pre @ e # post) \<noteq> None"
    by (simp add: legal_def)
  then obtain q where q: "run Uninitialized pre = Some q" and s: "step q e \<noteq> None"
    by (rule run_split)
  note inv = run_invariant [OF q]
  show ?thesis
  proof (cases e)
    case (Binding c)
    with s inv show ?thesis
      by (cases c) (auto split: if_splits)
  next
    case ImGui_NewFrame
    with s inv show ?thesis
      by (simp split: if_splits)
  next
    case ImGui_Render
    then show ?thesis by simp
  qed
qed

theorem call_order_witness:
  "legal [Binding (Init 1), Binding (NewFrame 2), ImGui_NewFrame, ImGui_Render,
          Binding (RenderDrawData 3 4 5), Binding Shutdown]
   \<and> initialised [Binding (Init 1)]
   \<and> frame_begun [Binding (Init 1), Binding (NewFrame 2)]
   \<and> initialised [Binding (Init 1), Binding (NewFrame 2), ImGui_NewFrame, ImGui_Render]
   \<and> frame_rendered [Binding (Init 1), Binding (NewFrame 2), ImGui_NewFrame, ImGui_Render]
   \<and> initialised [Binding (Init 1), Binding (NewFrame 2), ImGui_NewFrame, ImGui_Render,
          Binding (RenderDrawData 3 4 5)]
   \<and> frames_complete [Binding (Init 1), Binding (NewFrame 2), ImGui_NewFrame, ImGui_Render,
          Binding (RenderDrawData 3 4 5)]"
proof -
  let ?t = "[Binding (Init 1), Binding (NewFrame 2), ImGui_NewFrame, ImGui_Render,
          Binding (RenderDrawData 3 4 5), Binding Shutdown]"
  have l: "legal ?t"
    by (simp add: legal_def)
  have 1: "?t = [Binding (Init 1)] @ Binding (NewFrame 2)
      # [ImGui_NewFrame, ImGui_Render, Binding (RenderDrawData 3 4 5), Binding Shutdown]"
    by simp
  have 2: "?t = [Binding (Init 1), Binding (NewFrame 2)] @ ImGui_NewFrame
      # [ImGui_Render, Binding (RenderDrawData 3 4 5), Binding Shutdown]"
    by simp
  have 3: "?t = [Binding (Init 1), Binding (NewFrame 2), ImGui_NewFrame, ImGui_Render]
      @ Binding (RenderDrawData 3 4 5) # [Binding Shutdown]"
    by simp
  have 4: "?t = [Binding (Init 1), Binding (NewFrame 2), ImGui_NewFrame, ImGui_Render,
      Binding (RenderDrawData 3 4 5)] @ Binding Shutdown # []"
    by simp
  from call_order [OF l 1] call_order [OF l 2] call_order [OF l 3] call_order [OF l 4] l
  show ?thesis by simp
qed

end
